theory Spec2Isabelle
  imports Complex_Main "HOL-Library.AList"
begin

section \<open>Values held in an \<open>interface{}\<close>\<close>

text \<open>
  The interpreter works on \<open>map[string]interface{}\<close> data maps. A dynamic value is one of
  the Go types that reach the interpreter: the JSON decoder's types (\<open>nil\<close>, \<open>string\<close>,
  \<open>bool\<close>, \<open>float64\<close>, \<open>map[string]interface{}\<close>, \<open>[]interface{}\<close>), the integer and
  \<open>float32\<close> types that \<open>convertToFloat64\<close> switches on, \<open>fiber.Map\<close> (built by the
  interpreter for its structured responses) and the BSON driver's \<open>primitive.D\<close>,
  \<open>primitive.E\<close> and \<open>bson.M\<close>. A Go map is an association list read with \<open>map_of\<close>
  and written with \<open>AList.update\<close> and \<open>AList.delete\<close>; the iteration order of a Go
  \<open>range\<close> over a map, which Go leaves unspecified, is the list order.

  \<open>float64\<close> is the type parameter \<open>'f\<close>: its arithmetic and comparisons are operations
  of the library record \<open>golib\<close> below, so nothing is assumed about rounding, NaN or
  infinities.
\<close>

datatype ikind = KInt | KInt8 | KInt16 | KInt32 | KInt64
  | KUint | KUint8 | KUint16 | KUint32 | KUint64

datatype 'f val =
    VNil
  | VStr string
  | VBool bool
  | VInt ikind int
  | VF64 'f
  | VF32 'f
  | VMap "(string \<times> 'f val) list"
  | VList "'f val list"
  | VFiberMap "(string \<times> 'f val) list"
  | VBsonD "(string \<times> 'f val) list"
  | VBsonE string "'f val"
  | VBsonM "(string \<times> 'f val) list"

type_synonym 'f data = "(string \<times> 'f val) list"

section \<open>The Go standard library\<close>

text \<open>
  Library functions whose behaviour is not fixed by this repository are fields of a
  record that every function of the model takes as its first argument:
  \<^item> \<open>f_of_int\<close> is the conversion \<open>float64(v)\<close> of an integer, \<open>f_add\<close>, \<open>f_sub\<close>,
    \<open>f_mul\<close>, \<open>f_div\<close> are \<open>+ - * /\<close> on \<open>float64\<close>, \<open>f_eq\<close>, \<open>f_lt\<close>, \<open>f_le\<close> are
    \<open>== < <=\<close>;
  \<^item> \<open>ParseFloat s\<close> is \<open>strconv.ParseFloat(s, 64)\<close> and \<open>Sscan s\<close> is
    \<open>fmt.Sscan(s, &f)\<close> for a \<open>float64\<close> \<open>f\<close>, both \<open>None\<close> when the call returns an
    error;
  \<^item> \<open>Sprint v\<close> is \<open>fmt.Sprintf("%v", v)\<close>; \<open>DeepEqual\<close> is \<open>reflect.DeepEqual\<close>;
  \<^item> \<open>unicode_TrimSpace\<close> and \<open>unicode_ToLower\<close> are \<open>strings.TrimSpace\<close> and
    \<open>strings.ToLower\<close> on strings that hold a byte outside ASCII;
  \<^item> \<open>bsonRoundTrip d\<close> is \<open>bson.Marshal\<close> of a \<open>primitive.D\<close> followed by
    \<open>bson.Unmarshal\<close> into a \<open>bson.M\<close>, \<open>None\<close> when either returns an error.
\<close>

record 'f golib =
  f_of_int :: "int \<Rightarrow> 'f"
  f_add :: "'f \<Rightarrow> 'f \<Rightarrow> 'f"
  f_sub :: "'f \<Rightarrow> 'f \<Rightarrow> 'f"
  f_mul :: "'f \<Rightarrow> 'f \<Rightarrow> 'f"
  f_div :: "'f \<Rightarrow> 'f \<Rightarrow> 'f"
  f_eq :: "'f \<Rightarrow> 'f \<Rightarrow> bool"
  f_lt :: "'f \<Rightarrow> 'f \<Rightarrow> bool"
  f_le :: "'f \<Rightarrow> 'f \<Rightarrow> bool"
  ParseFloat :: "string \<Rightarrow> 'f option"
  Sscan :: "string \<Rightarrow> 'f option"
  Sprint :: "'f val \<Rightarrow> string"
  DeepEqual :: "'f val \<Rightarrow> 'f val \<Rightarrow> bool"
  unicode_TrimSpace :: "string \<Rightarrow> string"
  unicode_ToLower :: "string \<Rightarrow> string"
  bsonRoundTrip :: "'f data \<Rightarrow> 'f data option"

subsection \<open>Package \<open>strings\<close>\<close>

text \<open>A Go string is a byte sequence. Every separator and prefix the code uses is one
  ASCII byte (\<open>"$"\<close>, \<open>"."\<close>, \<open>","\<close>, \<open>":"\<close>, \<open>"-"\<close>).\<close>

definition HasPrefix :: "string \<Rightarrow> string \<Rightarrow> bool" where
  "HasPrefix s p = (take (length p) s = p)"

definition TrimPrefix :: "string \<Rightarrow> string \<Rightarrow> string" where
  "TrimPrefix s p = (if HasPrefix s p then drop (length p) s else s)"

text \<open>\<open>strings.Split(s, sep)\<close> for a one-byte separator: the pieces between the
  separators, \<open>[""]\<close> for the empty string.\<close>

fun Split :: "string \<Rightarrow> char \<Rightarrow> string list" where
  "Split [] sep = [[]]"
| "Split (c # cs) sep =
     (if c = sep then [] # Split cs sep
      else (c # hd (Split cs sep)) # tl (Split cs sep))"

text \<open>\<open>strings.SplitN(s, sep, 2)\<close>: cut at the first separator only.\<close>

definition SplitN2 :: "string \<Rightarrow> char \<Rightarrow> string list" where
  "SplitN2 s sep =
     (if sep \<in> set s
      then [takeWhile (\<lambda>c. c \<noteq> sep) s, tl (dropWhile (\<lambda>c. c \<noteq> sep) s)]
      else [s])"

fun Contains :: "string \<Rightarrow> string \<Rightarrow> bool" where
  "Contains [] sub = (sub = [])"
| "Contains (c # cs) sub = (if HasPrefix (c # cs) sub then True else Contains cs sub)"

definition isASCII :: "char \<Rightarrow> bool" where
  "isASCII c = ((of_char c :: nat) < 128)"

definition asciiSpace :: "char \<Rightarrow> bool" where
  "asciiSpace c = ((of_char c :: nat) \<in> {9, 10, 11, 12, 13, 32})"

text \<open>\<open>strings.TrimSpace\<close> removes leading and trailing Unicode white space. In a string
  of ASCII bytes only, the white space characters are tab, line feed, vertical tab, form
  feed, carriage return and space.\<close>

definition TrimSpace :: "'f golib \<Rightarrow> string \<Rightarrow> string" where
  "TrimSpace lib s =
     (if list_all isASCII s
      then rev (dropWhile asciiSpace (rev (dropWhile asciiSpace s)))
      else unicode_TrimSpace lib s)"

definition lowerASCII :: "char \<Rightarrow> char" where
  "lowerASCII c =
     (if 65 \<le> (of_char c :: nat) \<and> (of_char c :: nat) \<le> 90
      then char_of ((of_char c :: nat) + 32) else c)"

definition ToLower :: "'f golib \<Rightarrow> string \<Rightarrow> string" where
  "ToLower lib s =
     (if list_all isASCII s then map lowerASCII s else unicode_ToLower lib s)"

section \<open>\<open>internal/models\<close>\<close>

record 'f Condition =
  c_Field :: string
  c_Operator :: string
  c_Value :: "'f val"
  c_Action :: string
  c_ReturnData :: "'f val"

record 'f Transformation =
  t_Operation :: string
  t_Field :: string
  t_Value :: "'f val"
  t_Formula :: string

section \<open>\<open>internal/core\<close>: coercion and substitution\<close>

text \<open>\<open>convertToFloat64\<close>: \<open>None\<close> is the result \<open>(0, false)\<close>. A string that does not
  parse leaves the type switch and reaches the reflection switch, where its kind
  (\<open>String\<close>) matches no case; so do maps, slices and structs.\<close>

fun convertToFloat64 :: "'f golib \<Rightarrow> 'f val \<Rightarrow> 'f option" where
  "convertToFloat64 lib VNil = None"
| "convertToFloat64 lib (VF64 v) = Some v"
| "convertToFloat64 lib (VF32 v) = Some v"
| "convertToFloat64 lib (VInt k v) = Some (f_of_int lib v)"
| "convertToFloat64 lib (VStr v) = ParseFloat lib v"
| "convertToFloat64 lib (VBool v) = Some (if v then f_of_int lib 1 else f_of_int lib 0)"
| "convertToFloat64 lib (VMap m) = None"
| "convertToFloat64 lib (VList xs) = None"
| "convertToFloat64 lib (VFiberMap m) = None"
| "convertToFloat64 lib (VBsonD m) = None"
| "convertToFloat64 lib (VBsonE k v) = None"
| "convertToFloat64 lib (VBsonM m) = None"

text \<open>The traversal loop shared by \<open>SubstituteVariables\<close>, \<open>getValueAsFloat\<close> and the
  \<open>apiCall\<close> parameters: walk the path parts through nested \<open>map[string]interface{}\<close>
  values. \<open>None\<close> is the loop's early exit (a part that is not a key, or a value that is
  not a \<open>map[string]interface{}\<close>).\<close>

fun lookupPath :: "string list \<Rightarrow> 'f val \<Rightarrow> 'f val option" where
  "lookupPath [] v = Some v"
| "lookupPath (p # ps) (VMap m) =
     (case map_of m p of Some x \<Rightarrow> lookupPath ps x | None \<Rightarrow> None)"
| "lookupPath (p # ps) v = None"

primrec SubstituteVariables :: "'f val \<Rightarrow> 'f data \<Rightarrow> 'f val" where
  "SubstituteVariables VNil data = VNil"
| "SubstituteVariables (VStr t) data =
     (if HasPrefix t ''$''
      then (case lookupPath (Split (TrimPrefix t ''$'') CHR ''.'') (VMap data) of
              Some v \<Rightarrow> v | None \<Rightarrow> VNil)
      else VStr t)"
| "SubstituteVariables (VMap m) data =
     VMap (map (map_prod id (\<lambda>v. SubstituteVariables v data)) m)"
| "SubstituteVariables (VList xs) data =
     VList (map (\<lambda>v. SubstituteVariables v data) xs)"
| "SubstituteVariables (VBool b) data = VBool b"
| "SubstituteVariables (VInt k i) data = VInt k i"
| "SubstituteVariables (VF64 x) data = VF64 x"
| "SubstituteVariables (VF32 x) data = VF32 x"
| "SubstituteVariables (VFiberMap m) data = VFiberMap m"
| "SubstituteVariables (VBsonD m) data = VBsonD m"
| "SubstituteVariables (VBsonE k v) data = VBsonE k v"
| "SubstituteVariables (VBsonM m) data = VBsonM m"

text \<open>\<open>getValueAsFloat\<close>: a \<open>$path\<close> argument is looked up and coerced, any other
  argument is scanned as a float literal.\<close>

definition getValueAsFloat :: "'f golib \<Rightarrow> string \<Rightarrow> 'f data \<Rightarrow> 'f option" where
  "getValueAsFloat lib arg data =
     (if HasPrefix arg ''$''
      then (case lookupPath (Split (TrimPrefix arg ''$'') CHR ''.'') (VMap data) of
              Some v \<Rightarrow> convertToFloat64 lib v | None \<Rightarrow> None)
      else Sscan lib arg)"

section \<open>\<open>internal/core\<close>: the condition evaluator\<close>

text \<open>The first loop of \<open>evaluateCondition\<close>: it walks the parts of the field, reading a
  missing key as \<open>nil\<close>, and makes the function return \<open>false\<close> when it meets a value that
  is not a \<open>map[string]interface{}\<close>. \<open>walkField\<close> is \<open>True\<close> when the loop runs to its
  end. The value it reached is overwritten by the statement that follows the loop.\<close>

fun walkField :: "string list \<Rightarrow> 'f val \<Rightarrow> bool" where
  "walkField [] v = True"
| "walkField (p # ps) (VMap m) =
     walkField ps (case map_of m p of Some x \<Rightarrow> x | None \<Rightarrow> VNil)"
| "walkField (p # ps) v = False"

text \<open>The items of a value whose \<open>reflect\<close> kind is \<open>Slice\<close> or \<open>Array\<close>.\<close>

fun sliceItems :: "'f val \<Rightarrow> 'f val list option" where
  "sliceItems (VList xs) = Some xs"
| "sliceItems (VBsonD m) = Some (map (\<lambda>kv. VBsonE (fst kv) (snd kv)) m)"
| "sliceItems v = None"

definition compareOp :: "'f golib \<Rightarrow> string \<Rightarrow> 'f val \<Rightarrow> 'f val \<Rightarrow> bool" where
  "compareOp lib op fieldValue cv =
     (if op = ''eq'' then DeepEqual lib fieldValue cv
      else if op = ''neq'' then \<not> DeepEqual lib fieldValue cv
      else if op = ''contains'' then
        (case (fieldValue, cv) of
           (VStr sVal, VStr cVal) \<Rightarrow> Contains sVal cVal
         | _ \<Rightarrow> False)
      else if op = ''in'' then
        (case sliceItems cv of
           None \<Rightarrow> False
         | Some items \<Rightarrow> list_ex (\<lambda>item. DeepEqual lib fieldValue item) items)
      else if op \<in> {''gt'', ''lt'', ''gte'', ''lte''} then
        (case (convertToFloat64 lib fieldValue, convertToFloat64 lib cv) of
           (Some fvFloat, Some cvFloat) \<Rightarrow>
             (if op = ''gt'' then f_lt lib cvFloat fvFloat
              else if op = ''lt'' then f_lt lib fvFloat cvFloat
              else if op = ''gte'' then f_le lib cvFloat fvFloat
              else f_le lib fvFloat cvFloat)
         | _ \<Rightarrow> False)
      else False)"

definition evaluateCondition :: "'f golib \<Rightarrow> 'f Condition \<Rightarrow> 'f data \<Rightarrow> bool" where
  "evaluateCondition lib condition data =
     (if \<not> walkField (Split (c_Field condition) CHR ''.'') (VMap data) then False
      else
        (case map_of data (c_Field condition) of
           None \<Rightarrow> c_Operator condition = ''neq''
         | Some VNil \<Rightarrow>
             (if c_Operator condition = ''eq'' then c_Value condition = VNil
              else if c_Operator condition = ''neq'' then c_Value condition \<noteq> VNil
              else False)
         | Some fieldValue \<Rightarrow>
             compareOp lib (c_Operator condition) fieldValue (c_Value condition)))"

fun evaluateConditions :: "'f golib \<Rightarrow> 'f Condition list \<Rightarrow> 'f data \<Rightarrow> bool" where
  "evaluateConditions lib [] data = True"
| "evaluateConditions lib (cond # conditions) data =
     (if \<not> evaluateCondition lib cond data then False
      else evaluateConditions lib conditions data)"

section \<open>\<open>internal/core\<close>: the transformation engine\<close>

text \<open>The argument loops of \<open>calculate\<close>. An argument that is empty after trimming, or
  that has no numeric value, is skipped.\<close>

fun addArgs :: "'f golib \<Rightarrow> string list \<Rightarrow> 'f data \<Rightarrow> 'f \<Rightarrow> 'f" where
  "addArgs lib [] result calcResult = calcResult"
| "addArgs lib (a # fieldArgs) result calcResult =
     (let arg = TrimSpace lib a in
      if arg = [] then addArgs lib fieldArgs result calcResult
      else
        (let isSubtract = HasPrefix arg ''-'';
             arg1 = (if isSubtract then TrimPrefix arg ''-'' else arg) in
         case getValueAsFloat lib arg1 result of
           None \<Rightarrow> addArgs lib fieldArgs result calcResult
         | Some numVal \<Rightarrow>
             addArgs lib fieldArgs result
               (if isSubtract then f_sub lib calcResult numVal
                else f_add lib calcResult numVal)))"

fun multiplyArgs :: "'f golib \<Rightarrow> string list \<Rightarrow> 'f data \<Rightarrow> 'f \<times> bool \<Rightarrow> 'f \<times> bool" where
  "multiplyArgs lib [] result st = st"
| "multiplyArgs lib (a # fieldArgs) result st =
     (let arg = TrimSpace lib a in
      if arg = [] then multiplyArgs lib fieldArgs result st
      else
        (case getValueAsFloat lib arg result of
           None \<Rightarrow> multiplyArgs lib fieldArgs result st
         | Some numVal \<Rightarrow>
             multiplyArgs lib fieldArgs result (f_mul lib (fst st) numVal, True)))"

fun subtractArgs :: "'f golib \<Rightarrow> string list \<Rightarrow> 'f data \<Rightarrow> 'f \<Rightarrow> 'f" where
  "subtractArgs lib [] result calcResult = calcResult"
| "subtractArgs lib (a # fieldArgs) result calcResult =
     (case getValueAsFloat lib (TrimSpace lib a) result of
        None \<Rightarrow> subtractArgs lib fieldArgs result calcResult
      | Some subtrahend \<Rightarrow>
          subtractArgs lib fieldArgs result (f_sub lib calcResult subtrahend))"

text \<open>The inner \<open>switch calcOp\<close>: \<open>None\<close> is \<open>calculationPossible = false\<close>, \<open>Some r\<close> is the
  final \<open>calcResult\<close>.\<close>

definition calculate :: "'f golib \<Rightarrow> string \<Rightarrow> string list \<Rightarrow> 'f data \<Rightarrow> 'f option" where
  "calculate lib calcOp fieldArgs result =
     (if calcOp \<in> {''add'', ''sum''} then
        Some (addArgs lib fieldArgs result (f_of_int lib 0))
      else if calcOp \<in> {''multiply'', ''product''} then
        (let st = multiplyArgs lib fieldArgs result (f_of_int lib 1, False) in
         Some (if snd st then fst st else f_of_int lib 0))
      else if calcOp = ''subtract'' then
        (if length fieldArgs < 2 then None
         else
           (case getValueAsFloat lib (TrimSpace lib (fieldArgs ! 0)) result of
              None \<Rightarrow> None
            | Some minuend \<Rightarrow> Some (subtractArgs lib (tl fieldArgs) result minuend)))
      else if calcOp = ''divide'' then
        (if length fieldArgs \<noteq> 2 then None
         else
           (case (getValueAsFloat lib (TrimSpace lib (fieldArgs ! 0)) result,
                  getValueAsFloat lib (TrimSpace lib (fieldArgs ! 1)) result) of
              (Some dividend, Some divisor) \<Rightarrow>
                (if f_eq lib divisor (f_of_int lib 0) then Some (f_of_int lib 0)
                 else Some (f_div lib dividend divisor))
            | _ \<Rightarrow> None))
      else None)"

text \<open>The body of the loop of \<open>ApplyTransformations\<close>: one transformation applied to the
  map \<open>result\<close>.\<close>

definition applyTransformation ::
  "'f golib \<Rightarrow> 'f Transformation \<Rightarrow> 'f data \<Rightarrow> 'f data" where
  "applyTransformation lib t result =
     (if t_Operation t = ''set'' then
        (case t_Value t of
           VStr strVal \<Rightarrow>
             (if HasPrefix strVal ''$'' then
                (let substituted = SubstituteVariables (t_Value t) result in
                 if substituted = VNil then result
                 else AList.update (t_Field t) substituted result)
              else AList.update (t_Field t) (t_Value t) result)
         | _ \<Rightarrow> AList.update (t_Field t) (t_Value t) result)
      else if t_Operation t = ''remove'' then AList.delete (t_Field t) result
      else if t_Operation t = ''append'' then
        (let valueToAppend = SubstituteVariables (t_Value t) result in
         case map_of result (t_Field t) of
           None \<Rightarrow> AList.update (t_Field t) valueToAppend result
         | Some VNil \<Rightarrow> AList.update (t_Field t) valueToAppend result
         | Some currentVal \<Rightarrow>
             AList.update (t_Field t)
               (VStr (Sprint lib currentVal @ Sprint lib valueToAppend)) result)
      else if t_Operation t = ''calculate'' then
        (if t_Formula t = [] \<or> t_Field t = [] then result
         else
           (let parts = SplitN2 (t_Formula t) CHR '':'' in
            if length parts \<noteq> 2 then result
            else
              (let calcOp = ToLower lib (TrimSpace lib (parts ! 0));
                   fieldArgs = Split (parts ! 1) CHR '','' in
               case calculate lib calcOp fieldArgs result of
                 Some calcResult \<Rightarrow> AList.update (t_Field t) (VF64 calcResult) result
               | None \<Rightarrow> result)))
      else result)"

text \<open>\<open>ApplyTransformations\<close> on map values. With no transformation the function returns
  its argument; otherwise it copies the map (the copy of a map is the same map value) and
  runs the loop on the copy.\<close>

definition ApplyTransformations ::
  "'f golib \<Rightarrow> 'f Transformation list \<Rightarrow> 'f data \<Rightarrow> 'f data" where
  "ApplyTransformations lib transformations data =
     (if length transformations = 0 then data
      else foldl (\<lambda>result t. applyTransformation lib t result) data transformations)"

subsection \<open>\<open>ApplyTransformations\<close> on map objects\<close>

text \<open>
  A Go map is a reference to a map object, and \<open>ApplyTransformations\<close> returns such a
  reference. To tell the object it returns from the one it was given, the store is a
  list of map objects and a reference is an index into it: \<open>make(map[string]interface{})\<close>
  appends an empty object, \<open>result[k] = v\<close> and \<open>delete(result, k)\<close> replace the object at
  the index of \<open>result\<close>. The function writes to \<open>result\<close> only, never through a value
  stored in it, so the values stay as above.
\<close>

type_synonym 'f store = "'f data list"

definition ApplyTransformations_ref ::
  "'f golib \<Rightarrow> 'f Transformation list \<Rightarrow> nat \<Rightarrow> 'f store \<Rightarrow> nat \<times> 'f store" where
  "ApplyTransformations_ref lib transformations data h =
     (if length transformations = 0 then (data, h)
      else
        (let result = length h;
             h1 = h @ [[]];
             h2 = foldl (\<lambda>s kv. s[result := AList.update (fst kv) (snd kv) (s ! result)])
                    h1 (h1 ! data);
             h3 = foldl (\<lambda>s t. s[result := applyTransformation lib t (s ! result)])
                    h2 transformations
         in (result, h3)))"

section \<open>\<open>internal/core\<close>: the flow interpreter\<close>

record 'f ApiCall =
  ac_ApiName :: string
  ac_Parameters :: "'f data"
  ac_ResultField :: string

text \<open>\<open>ConditionalBlock\<close> and \<open>ActionDefinition\<close> refer to each other through pointers; a
  \<open>nil\<close> pointer is \<open>None\<close>.\<close>

datatype 'f ConditionalBlock =
  ConditionalBlock
    (b_Conditions: "'f Condition list")
    (b_Then: "'f ActionDefinition option")
    (b_Else: "'f ActionDefinition option")
and 'f ActionDefinition =
  ActionDefinition
    (a_Type: string)
    (a_ReturnData: "'f val")
    (a_ConditionalFlow: "'f ConditionalBlock option")
    (a_SaveData: bool)
    (a_Transform: "'f Transformation list")
    (a_ApiCall: "'f ApiCall option")

record Parameter =
  p_Name :: string
  p_Type :: string
  p_Required :: bool

text \<open>\<open>ApiDefinition\<close> without the fields that neither the interpreter nor the dispatcher
  reads (\<open>ID\<close>, \<open>ResponseSchema\<close>, \<open>CreatedAt\<close>).\<close>

record 'f ApiDefinition =
  d_Name :: string
  d_Endpoint :: string
  d_Method :: string
  d_Database :: string
  d_Collection :: string
  d_Parameters :: "Parameter list"
  d_ConditionalFlow :: "'f ConditionalBlock option"
  d_UniqueKey :: string

text \<open>A Go \<open>error\<close> is its message.\<close>

datatype error = Error (Message: string)

text \<open>
  The methods of \<open>database.Store\<close> that the interpreter and the dispatcher call. They talk
  to the database, so here they are functions given from outside: the results of
  \<open>GetAPIDefinitionByName(ctx, name)\<close>, \<open>FindData(ctx, db, coll, filter)\<close>,
  \<open>DeleteData(ctx, db, coll, filter)\<close> and \<open>SaveData(ctx, db, coll, uniqueKey, data)\<close>.
  Contexts, deadlines and logging are left out.
\<close>

record 'f Store =
  GetAPIDefinitionByName :: "string \<Rightarrow> error + 'f ApiDefinition"
  FindData :: "string \<Rightarrow> string \<Rightarrow> 'f data \<Rightarrow> error + 'f data list"
  DeleteData :: "string \<Rightarrow> string \<Rightarrow> 'f data \<Rightarrow> error + int"
  SaveData :: "string \<Rightarrow> string \<Rightarrow> string \<Rightarrow> 'f data \<Rightarrow> error option"

text \<open>The \<open>return\<close> action on a \<open>[]interface{}\<close>: the loop over the items, with the
  variables \<open>returnMap\<close> and \<open>finalReturnData\<close>. \<open>addPair\<close> is the first statement of the
  loop body, the substitution is its second statement.\<close>

definition addPair :: "'f val \<Rightarrow> 'f data \<Rightarrow> 'f data" where
  "addPair item returnMap =
     (case item of
        VMap kvPair \<Rightarrow>
          (case map_of kvPair ''Key'' of
             Some (VStr key) \<Rightarrow>
               AList.update key
                 (case map_of kvPair ''Value'' of Some x \<Rightarrow> x | None \<Rightarrow> VNil)
                 returnMap
           | _ \<Rightarrow> returnMap)
      | _ \<Rightarrow> returnMap)"

fun returnPairs ::
  "'f val list \<Rightarrow> 'f data \<Rightarrow> 'f data \<Rightarrow> 'f val \<Rightarrow> 'f val" where
  "returnPairs [] dataAfterTransform returnMap finalReturnData = finalReturnData"
| "returnPairs (item # v) dataAfterTransform returnMap finalReturnData =
     returnPairs v dataAfterTransform (addPair item returnMap)
       (SubstituteVariables (VMap (addPair item returnMap)) dataAfterTransform)"

text \<open>The \<open>apiCall\<close> action: the loop that prepares \<open>callParams\<close>.\<close>

fun callParameters :: "'f data \<Rightarrow> 'f data \<Rightarrow> 'f data \<Rightarrow> 'f data" where
  "callParameters [] dataAfterTransform callParams = callParams"
| "callParameters (kv # parameters) dataAfterTransform callParams =
     callParameters parameters dataAfterTransform
       (case snd kv of
          VStr strVal \<Rightarrow>
            (if HasPrefix strVal ''$'' then
               (case lookupPath (Split (TrimPrefix strVal ''$'') CHR ''.'')
                       (VMap dataAfterTransform) of
                  None \<Rightarrow> callParams
                | Some VNil \<Rightarrow> callParams
                | Some value \<Rightarrow> AList.update (fst kv) value callParams)
             else AList.update (fst kv) (snd kv) callParams)
        | _ \<Rightarrow> AList.update (fst kv) (snd kv) callParams)"

text \<open>The \<open>apiCall\<close> action: the type switch on the response of the called flow.\<close>

fun processedResponse :: "'f golib \<Rightarrow> 'f val \<Rightarrow> 'f val" where
  "processedResponse lib (VBsonD v) =
     (case bsonRoundTrip lib v of None \<Rightarrow> VBsonD v | Some m \<Rightarrow> VBsonM m)"
| "processedResponse lib (VFiberMap v) =
     (case map_of v ''data'' of Some data \<Rightarrow> data | None \<Rightarrow> VFiberMap v)"
| "processedResponse lib v = v"

text \<open>The \<open>apiCall\<close> action: storing the response at a dotted \<open>resultField\<close>. The loop
  creates the missing intermediate maps in place and stops at an intermediate value that
  is not a \<open>map[string]interface{}\<close>; the result is \<open>False\<close> then, with the maps created so
  far. A nested map is written in place, which is the parent with the new nested map.
  Values are trees here: when two entries of a data map refer to one nested map object,
  Go changes both and this function changes the one on the path. The data maps decoded
  from a request share nothing.\<close>

fun storeNested :: "string list \<Rightarrow> 'f val \<Rightarrow> 'f data \<Rightarrow> bool \<times> 'f data" where
  "storeNested [] response current = (True, current)"
| "storeNested [p] response current = (True, AList.update p response current)"
| "storeNested (p # q # parts) response current =
     (let current1 =
        (case map_of current p of
           None \<Rightarrow> AList.update p (VMap []) current
         | Some x \<Rightarrow> current)
      in case map_of current1 p of
           Some (VMap next) \<Rightarrow>
             (let r = storeNested (q # parts) response next
              in (fst r, AList.update p (VMap (snd r)) current1))
         | _ \<Rightarrow> (False, current1))"

text \<open>The \<open>apiCall\<close> action after the called flow has answered without error: store the
  response at \<open>resultField\<close>, copy the map, apply the transformations again and build the
  result from \<open>returnData\<close>.\<close>

definition storeResult ::
  "'f golib \<Rightarrow> 'f ActionDefinition \<Rightarrow> 'f ApiCall \<Rightarrow> 'f data \<Rightarrow> 'f val
     \<Rightarrow> 'f val \<times> 'f data \<times> bool \<times> error option" where
  "storeResult lib action apiCall dataAfterTransform apiResponse =
     (let stored =
        (if CHR ''.'' \<in> set (ac_ResultField apiCall)
         then storeNested (Split (ac_ResultField apiCall) CHR ''.'')
                (processedResponse lib apiResponse) dataAfterTransform
         else (True, AList.update (ac_ResultField apiCall)
                (processedResponse lib apiResponse) dataAfterTransform))
      in
      if fst stored then
        (let finalState = ApplyTransformations lib (a_Transform action) (snd stored) in
         case a_ReturnData action of
           VMap returnMap \<Rightarrow>
             (case SubstituteVariables (VMap returnMap) finalState of
                VMap finalResult \<Rightarrow> (VMap finalResult, finalResult, a_SaveData action, None)
              | other \<Rightarrow> (VMap finalState, finalState, a_SaveData action, None))
         | other \<Rightarrow> (VMap finalState, finalState, a_SaveData action, None))
      else
        (VFiberMap [(''status'', VStr ''error''),
                    (''message'', VStr ''Invalid result field path'')],
         snd stored, False, None))"

text \<open>
  \<open>ProcessConditionalFlow\<close> and \<open>processAction\<close> call each other, and an \<open>apiCall\<close> enters
  the flow of another definition taken from the store, which may call back: the recursion
  need not end. The first argument bounds the depth of the calls; \<open>None\<close> says that the
  bound was reached. A result is \<open>(responseToSend, finalDataState, shouldSave, err)\<close>.
\<close>

type_synonym 'f flowResult = "'f val \<times> 'f data \<times> bool \<times> error option"

fun ProcessConditionalFlow ::
  "'f golib \<Rightarrow> 'f Store \<Rightarrow> nat \<Rightarrow> 'f ConditionalBlock option \<Rightarrow> 'f data
     \<Rightarrow> 'f flowResult option"
and processAction ::
  "'f golib \<Rightarrow> 'f Store \<Rightarrow> nat \<Rightarrow> 'f ActionDefinition option \<Rightarrow> 'f data
     \<Rightarrow> 'f flowResult option"
where
  "ProcessConditionalFlow lib store 0 flow initialData = None"
| "ProcessConditionalFlow lib store (Suc n) None initialData =
     Some (VMap initialData, initialData, False, None)"
| "ProcessConditionalFlow lib store (Suc n) (Some flow) initialData =
     (case (if evaluateConditions lib (b_Conditions flow) initialData
            then b_Then flow else b_Else flow) of
        None \<Rightarrow> Some (VMap initialData, initialData, False, None)
      | Some actionToProcess \<Rightarrow>
          (case processAction lib store n (Some actionToProcess) initialData of
             None \<Rightarrow> None
           | Some (responseFromAction, dataAfterAction, saveFromAction, Some actionErr) \<Rightarrow>
               Some (VFiberMap [(''error'', VStr (Message actionErr))],
                     dataAfterAction, False, Some actionErr)
           | Some (responseFromAction, dataAfterAction, saveFromAction, None) \<Rightarrow>
               Some (responseFromAction, dataAfterAction, saveFromAction, None)))"
| "processAction lib store 0 action dataBeforeAction = None"
| "processAction lib store (Suc n) None dataBeforeAction =
     Some (VMap dataBeforeAction, dataBeforeAction, False, None)"
| "processAction lib store (Suc n) (Some action) dataBeforeAction =
     (let dataAfterTransform = ApplyTransformations lib (a_Transform action) dataBeforeAction in
      if a_Type action = ''return'' then
        Some ((case a_ReturnData action of
                 VList v \<Rightarrow> returnPairs v dataAfterTransform [] VNil
               | template \<Rightarrow> SubstituteVariables template dataAfterTransform),
              dataAfterTransform, a_SaveData action, None)
      else if a_Type action = ''conditionalBlock'' then
        (case a_ConditionalFlow action of
           None \<Rightarrow> Some (VMap dataAfterTransform, dataAfterTransform, a_SaveData action, None)
         | Some flow \<Rightarrow> ProcessConditionalFlow lib store n (Some flow) dataAfterTransform)
      else if a_Type action = ''continue'' then
        Some (VMap dataAfterTransform, dataAfterTransform, a_SaveData action, None)
      else if a_Type action = ''apiCall'' then
        (case a_ApiCall action of
           None \<Rightarrow>
             Some (VFiberMap [(''status'', VStr ''error''),
                              (''message'', VStr ''Invalid API call configuration'')],
                   dataAfterTransform, False, None)
         | Some apiCall \<Rightarrow>
             (case GetAPIDefinitionByName store (ac_ApiName apiCall) of
                Inl err \<Rightarrow>
                  Some (VFiberMap [(''error'',
                          VStr (''Failed to process API call to '' @ ac_ApiName apiCall))],
                        dataAfterTransform, False, Some err)
              | Inr targetAPI \<Rightarrow>
                  (let callParams =
                     callParameters (ac_Parameters apiCall) dataAfterTransform [] in
                   case find (\<lambda>kv. snd kv = VNil) callParams of
                     Some kv \<Rightarrow>
                       Some (VFiberMap [(''status'', VStr ''error''),
                               (''message'', VStr (''Missing required parameter: '' @ fst kv))],
                             dataAfterTransform, False, None)
                   | None \<Rightarrow>
                       (case ProcessConditionalFlow lib store n
                               (d_ConditionalFlow targetAPI) callParams of
                          None \<Rightarrow> None
                        | Some (apiResponse, callData, callSave, Some callErr) \<Rightarrow>
                            Some (VFiberMap [(''error'',
                                    VStr (''API call to '' @ ac_ApiName apiCall
                                          @ '' failed: '' @ Message callErr))],
                                  dataAfterTransform, False, Some callErr)
                        | Some (apiResponse, callData, callSave, None) \<Rightarrow>
                            Some (storeResult lib action apiCall dataAfterTransform
                                    apiResponse)))))
      else
        Some (VFiberMap [(''error'', VStr (''unknown action type: '' @ a_Type action))],
              dataAfterTransform, False,
              Some (Error (''unknown action type: '' @ a_Type action))))"

section \<open>The request dispatcher\<close>

text \<open>
  \<open>DynamicAPIHandler\<close> reads the request through the Fiber context: the method and the
  path, the path parameters (\<open>c.AllParams()\<close>), the query arguments in the order in which
  \<open>VisitAll\<close> visits them, and the body as \<open>c.BodyParser\<close> decodes it into a map (\<open>None\<close>
  when the parser returns an error).
\<close>

record 'f Request =
  r_Method :: string
  r_Path :: string
  r_AllParams :: "(string \<times> string) list"
  r_QueryArgs :: "(string \<times> string) list"
  r_Body :: "'f data option"

text \<open>Step 2 of the handler: the request data map \<open>reqData\<close>.\<close>

definition putIfAbsent :: "string \<Rightarrow> 'f val \<Rightarrow> 'f data \<Rightarrow> 'f data" where
  "putIfAbsent k v reqData =
     (case map_of reqData k of None \<Rightarrow> AList.update k v reqData | Some x \<Rightarrow> reqData)"

definition requestData :: "'f Request \<Rightarrow> 'f data" where
  "requestData req =
     (let reqData0 =
            foldl (\<lambda>m kv. AList.update (fst kv) (VStr (snd kv)) m) [] (r_AllParams req);
          reqData1 =
            foldl (\<lambda>m kv. putIfAbsent (fst kv) (VStr (snd kv)) m) reqData0 (r_QueryArgs req)
      in
      if r_Method req \<in> {''POST'', ''PUT'', ''PATCH''} then
        (case r_Body req of
           Some bodyData \<Rightarrow> foldl (\<lambda>m kv. putIfAbsent (fst kv) (snd kv) m) reqData1 bodyData
         | None \<Rightarrow> reqData1)
      else reqData1)"

text \<open>Step 3: the loop over the declared parameters. The result is the name of the first
  required parameter that is absent, \<open>nil\<close> or prints as the empty string, at which the
  handler answers 400.\<close>

fun missingRequired :: "'f golib \<Rightarrow> Parameter list \<Rightarrow> 'f data \<Rightarrow> string option" where
  "missingRequired lib [] reqData = None"
| "missingRequired lib (param # parameters) reqData =
     (if p_Required param then
        (case map_of reqData (p_Name param) of
           None \<Rightarrow> Some (p_Name param)
         | Some VNil \<Rightarrow> Some (p_Name param)
         | Some val \<Rightarrow>
             (if Sprint lib val = [] then Some (p_Name param)
              else missingRequired lib parameters reqData))
      else missingRequired lib parameters reqData)"

text \<open>What the handler calls, in the order of the calls: the flow interpreter, the default
  logic of the request's method, and the three data methods of the store.\<close>

datatype 'f call =
    CallProcessConditionalFlow "'f data"
  | CallDefaultLogic string
  | CallFindData string string "'f data"
  | CallDeleteData string string "'f data"
  | CallSaveData string string string "'f data"

fun isSaveData :: "'f call \<Rightarrow> bool" where
  "isSaveData (CallSaveData db coll uniqueKey d) = True"
| "isSaveData c = False"

text \<open>The local variables of the handler after step 5, with the status set on the
  context (200 until the handler sets one).\<close>

record 'f locals =
  response :: "'f val"
  dataForSaving :: "'f data option"
  saveData :: bool
  processingError :: "error option"
  status :: nat

definition failWith :: "nat \<Rightarrow> string \<Rightarrow> 'f locals" where
  "failWith code msg =
     \<lparr> response = VFiberMap [(''error'', VStr msg)], dataForSaving = None,
       saveData = False, processingError = Some (Error msg), status = code \<rparr>"

text \<open>Step 5 without a conditional flow: the default logic. The results of \<open>FindData\<close>, a
  \<open>[]bson.M\<close>, are a list of \<open>bson.M\<close> values.\<close>

definition defaultLogic ::
  "'f Store \<Rightarrow> 'f ApiDefinition \<Rightarrow> string \<Rightarrow> 'f data \<Rightarrow> 'f locals \<times> 'f call list" where
  "defaultLogic store api method currentDataState =
     (if method = ''GET'' then
        ((case FindData store (d_Database api) (d_Collection api) currentDataState of
            Inl err \<Rightarrow> failWith 500 (''failed to retrieve data: '' @ Message err)
          | Inr results \<Rightarrow>
              \<lparr> response = VList (map VBsonM results), dataForSaving = None,
                saveData = False, processingError = None, status = 200 \<rparr>),
         [CallFindData (d_Database api) (d_Collection api) currentDataState])
      else if method \<in> {''POST'', ''PUT''} then
        (\<lparr> response = VMap currentDataState, dataForSaving = Some currentDataState,
           saveData = True, processingError = None, status = 200 \<rparr>, [])
      else if method = ''DELETE'' then
        (if length currentDataState = 0 then
           (failWith 400 ''DELETE requires parameters to identify data to delete'', [])
         else
           ((case DeleteData store (d_Database api) (d_Collection api) currentDataState of
               Inl err \<Rightarrow> failWith 500 (''failed to delete data: '' @ Message err)
             | Inr delCount \<Rightarrow>
                 \<lparr> response = VFiberMap [(''success'', VBool True),
                                          (''deletedCount'', VInt KInt64 delCount)],
                   dataForSaving = None, saveData = False, processingError = None,
                   status = 200 \<rparr>),
            [CallDeleteData (d_Database api) (d_Collection api) currentDataState]))
      else
        (\<lparr> response = VFiberMap [(''success'', VBool True),
                                 (''message'', VStr (''Method '' @ method @ '' received''))],
           dataForSaving = None, saveData = False, processingError = None,
           status = 200 \<rparr>, []))"

text \<open>How the handler leaves: \<open>c.Next()\<close>, an immediate \<open>c.Status(code).JSON(body)\<close>, a
  panic (the unchecked type assertion \<open>response.(fiber.Map)\<close> of step 6), or the entry into
  step 7 with the status, the response and \<open>processingError\<close>. Step 7 shapes the HTTP
  response from these three and calls neither the interpreter nor the store; it is not
  part of the model.\<close>

datatype 'f outcome =
    Next
  | Respond nat "'f val"
  | Panic
  | Shape nat "'f val" "error option"

definition isNilAt :: "'f data \<Rightarrow> string \<Rightarrow> bool" where
  "isNilAt m k = (case map_of m k of None \<Rightarrow> True | Some VNil \<Rightarrow> True | Some v \<Rightarrow> False)"

text \<open>Step 6: save when \<open>saveData\<close> is set and no error has been recorded.\<close>

definition saveStep ::
  "'f Store \<Rightarrow> 'f ApiDefinition \<Rightarrow> 'f locals \<Rightarrow> 'f outcome \<times> 'f call list" where
  "saveStep store api l =
     (if saveData l \<and> processingError l = None then
        (case dataForSaving l of
           None \<Rightarrow>
             (Shape 500
                (VFiberMap [(''error'',
                   VStr ''internal error: data marked for saving is missing'')])
                (Some (Error ''internal error: data marked for saving is missing'')), [])
         | Some d \<Rightarrow>
             ((case SaveData store (d_Database api) (d_Collection api) (d_UniqueKey api) d of
                Some err \<Rightarrow>
                  (let msg = ''failed to save data to database: '' @ Message err;
                       failed = Shape 500 (VFiberMap [(''error'', VStr msg)]) (Some (Error msg))
                   in case response l of
                        VNil \<Rightarrow> failed
                      | VFiberMap m \<Rightarrow>
                          (if isNilAt m ''error'' then failed
                           else Shape (status l) (response l) (Some (Error msg)))
                      | other \<Rightarrow> Panic)
              | None \<Rightarrow>
                  (case response l of
                     VFiberMap respMap \<Rightarrow>
                       (if isNilAt respMap ''message'' \<and> isNilAt respMap ''data'' then
                          Shape (status l)
                            (VFiberMap (AList.update ''message''
                               (VStr ''Data processed and saved successfully'') respMap))
                            None
                        else Shape (status l) (response l) None)
                   | other \<Rightarrow> Shape (status l) (response l) None)),
              [CallSaveData (d_Database api) (d_Collection api) (d_UniqueKey api) d]))
      else (Shape (status l) (response l) (processingError l), []))"

text \<open>Steps 1 to 6 of \<open>DynamicAPIHandler\<close>. \<open>dynamicRoutes\<close> is the route cache of the
  handler; the bound on the depth of the interpreter's calls is passed on, and \<open>None\<close>
  says that the interpreter reached it.\<close>

definition DynamicAPIHandler ::
  "'f golib \<Rightarrow> 'f Store \<Rightarrow> nat \<Rightarrow> (string \<Rightarrow> 'f ApiDefinition option) \<Rightarrow> 'f Request
     \<Rightarrow> ('f outcome \<times> 'f call list) option" where
  "DynamicAPIHandler lib store fuel dynamicRoutes req =
     (case dynamicRoutes (r_Method req @ '':'' @ r_Path req) of
        None \<Rightarrow> Some (Next, [])
      | Some api \<Rightarrow>
          (let reqData = requestData req in
           case missingRequired lib (d_Parameters api) reqData of
             Some name \<Rightarrow>
               Some (Respond 400
                       (VFiberMap [(''error'',
                          VStr (''Missing or empty required parameter: '' @ name))]), [])
           | None \<Rightarrow>
               (if d_Database api = [] \<or> d_Collection api = [] then
                  Some (Respond 500
                          (VFiberMap [(''error'',
                             VStr ''API configuration error: missing target database or collection'')]),
                        [])
                else
                  (case d_ConditionalFlow api of
                     Some flow \<Rightarrow>
                       (case ProcessConditionalFlow lib store fuel (Some flow) reqData of
                          None \<Rightarrow> None
                        | Some (responseToSend, finalDataState, shouldSave, Some err) \<Rightarrow>
                            (let l = failWith 500
                                       (''failed to process request logic: '' @ Message err);
                                 r = saveStep store api l
                             in Some (fst r, CallProcessConditionalFlow reqData # snd r))
                        | Some (responseToSend, finalDataState, shouldSave, None) \<Rightarrow>
                            (let l = \<lparr> response = responseToSend,
                                       dataForSaving =
                                         (if shouldSave then Some finalDataState else None),
                                       saveData = shouldSave, processingError = None,
                                       status = 200 \<rparr>;
                                 r = saveStep store api l
                             in Some (fst r, CallProcessConditionalFlow reqData # snd r)))
                   | None \<Rightarrow>
                       (let dl = defaultLogic store api (r_Method req) reqData;
                            r = saveStep store api (fst dl)
                        in Some (fst r,
                                 CallDefaultLogic (r_Method req) # snd dl @ snd r))))))"

section \<open>A library instance for evaluation\<close>

text \<open>An instance of the library record on which the model can be run: \<open>float64\<close> is read
  as the rationals, a literal is scanned when it is a sequence of decimal digits, and
  \<open>%v\<close> prints a string as itself.\<close>

fun scanDigits :: "string \<Rightarrow> nat \<Rightarrow> nat option" where
  "scanDigits [] acc = Some acc"
| "scanDigits (c # cs) acc =
     (if 48 \<le> (of_char c :: nat) \<and> (of_char c :: nat) \<le> 57
      then scanDigits cs (10 * acc + ((of_char c :: nat) - 48)) else None)"

definition scanLiteral :: "string \<Rightarrow> rat option" where
  "scanLiteral s = (if s = [] then None else map_option of_nat (scanDigits s 0))"

fun printValue :: "rat val \<Rightarrow> string" where
  "printValue (VStr s) = s"
| "printValue VNil = ''<nil>''"
| "printValue (VBool b) = (if b then ''true'' else ''false'')"
| "printValue v = ''?''"

definition exlib :: "rat golib" where
  "exlib = \<lparr> f_of_int = of_int, f_add = (+), f_sub = (-), f_mul = (*), f_div = (/),
      f_eq = (=), f_lt = (<), f_le = (\<le>),
      ParseFloat = scanLiteral, Sscan = scanLiteral,
      Sprint = printValue, DeepEqual = (=),
      unicode_TrimSpace = id, unicode_ToLower = id,
      bsonRoundTrip = Some \<rparr>"

text \<open>A store with one definition, \<open>B\<close>, whose flow returns a map built from its
  parameter \<open>uid\<close>; the data methods succeed.\<close>

definition exTarget :: "rat ApiDefinition" where
  "exTarget =
     \<lparr> d_Name = ''B'', d_Endpoint = ''/b'', d_Method = ''GET'', d_Database = ''app'',
       d_Collection = ''b'', d_Parameters = [],
       d_ConditionalFlow =
         Some (ConditionalBlock []
                 (Some (ActionDefinition ''return''
                          (VMap [(''called'', VBool True), (''id'', VStr ''$uid'')])
                          None False [] None))
                 None),
       d_UniqueKey = [] \<rparr>"

definition exStore :: "rat Store" where
  "exStore =
     \<lparr> GetAPIDefinitionByName =
         (\<lambda>name. if name = ''B'' then Inr exTarget else Inl (Error ''document not found'')),
       FindData = (\<lambda>db coll filter. Inr []),
       DeleteData = (\<lambda>db coll filter. Inr 0),
       SaveData = (\<lambda>db coll uniqueKey d. None) \<rparr>"

text \<open>A route cache with two definitions: \<open>POST /u\<close> with a required parameter \<open>id\<close> and
  no flow, and \<open>GET /broken\<close> whose flow has an action of an unknown type that asks for
  saving.\<close>

definition exUsers :: "rat ApiDefinition" where
  "exUsers =
     \<lparr> d_Name = ''u'', d_Endpoint = ''/u'', d_Method = ''POST'', d_Database = ''app'',
       d_Collection = ''users'',
       d_Parameters = [\<lparr>p_Name = ''id'', p_Type = ''string'', p_Required = True\<rparr>],
       d_ConditionalFlow = None, d_UniqueKey = ''id'' \<rparr>"

definition exBrokenFlow :: "rat ConditionalBlock" where
  "exBrokenFlow =
     ConditionalBlock [] (Some (ActionDefinition ''bogus'' VNil None True [] None)) None"

definition exBroken :: "rat ApiDefinition" where
  "exBroken =
     \<lparr> d_Name = ''broken'', d_Endpoint = ''/broken'', d_Method = ''GET'',
       d_Database = ''app'', d_Collection = ''things'', d_Parameters = [],
       d_ConditionalFlow = Some exBrokenFlow, d_UniqueKey = [] \<rparr>"

definition exRoutes :: "string \<Rightarrow> rat ApiDefinition option" where
  "exRoutes = map_of [(''POST:/u'', exUsers), (''GET:/broken'', exBroken)]"

section \<open>\<open>float64\<close> as IEEE 754 binary64\<close>

text \<open>
  Go's \<open>float64\<close> is the IEEE 754 binary64 format, and its operators round to nearest,
  ties to even. A finite value is a sign, a mantissa \<open>m\<close> and an exponent \<open>e\<close>, and stands
  for \<open>m * 2^e\<close>: a normal number has \<open>2^52 \<le> m < 2^53\<close> and \<open>-1074 \<le> e \<le> 971\<close>, a
  subnormal number and zero have \<open>m < 2^52\<close> and \<open>e = -1074\<close>. The sign is \<open>True\<close> for a
  negative value.
\<close>

datatype float64 = F64Fin bool nat int | F64Inf bool | F64NaN

definition pow2 :: "int \<Rightarrow> real" where
  "pow2 e = (if 0 \<le> e then 2 ^ nat e else 1 / 2 ^ nat (- e))"

text \<open>The number that a finite value stands for.\<close>

fun valof :: "float64 \<Rightarrow> real" where
  "valof (F64Fin s m e) = (if s then - (of_nat m * pow2 e) else of_nat m * pow2 e)"
| "valof (F64Inf s) = 0"
| "valof F64NaN = 0"

text \<open>The number of binary digits of a natural number, and with it the integer \<open>k\<close> with
  \<open>2^k \<le> q < 2^(k+1)\<close> for a positive number \<open>q\<close>.\<close>

fun bitlen :: "nat \<Rightarrow> nat" where
  "bitlen n = (if n = 0 then 0 else Suc (bitlen (n div 2)))"

definition ilog2 :: "real \<Rightarrow> int" where
  "ilog2 q =
     (if 1 \<le> q then int (bitlen (nat \<lfloor>q\<rfloor>)) - 1
      else - int (bitlen (nat (\<lceil>1 / q\<rceil> - 1))))"

text \<open>Rounding to the nearest integer, a tie to the even one.\<close>

definition roundEven :: "real \<Rightarrow> int" where
  "roundEven x =
     (let f = \<lfloor>x\<rfloor>; r = x - of_int f in
      if r < 1 / 2 then f
      else if 1 / 2 < r then f + 1
      else if even f then f else f + 1)"

text \<open>
  Rounding a real number to binary64. The exponent is the one at which the number has
  53 binary digits before the point, and not less than -1074; the mantissa is the number
  in units of \<open>2^e\<close>, rounded to the nearest integer, ties to even. A mantissa that the
  rounding carries to \<open>2^53\<close> is \<open>2^52\<close> at the next exponent, and a result beyond the
  largest exponent is an infinity. Zero is rounded to \<open>+0\<close>; a number too small for the
  smallest subnormal is rounded to a zero of its sign.
\<close>

definition round64 :: "real \<Rightarrow> float64" where
  "round64 q =
     (if q = 0 then F64Fin False 0 (- 1074)
      else
        (let e = max (ilog2 \<bar>q\<bar> - 52) (- 1074);
             m = nat (roundEven (\<bar>q\<bar> / pow2 e));
             e1 = (if m = 2 ^ 53 then e + 1 else e);
             m1 = (if m = 2 ^ 53 then 2 ^ 52 else m)
         in if 971 < e1 then F64Inf (q < 0) else F64Fin (q < 0) m1 e1))"

text \<open>The conversion \<open>float64(v)\<close> of an integer.\<close>

definition f64_of_int :: "int \<Rightarrow> float64" where
  "f64_of_int i = round64 (of_int i)"

text \<open>The operators \<open>+ - * /\<close>: the exact result, rounded; the special cases are those of
  IEEE 754. An exact zero sum is \<open>-0\<close> only when both operands are negative.\<close>

fun f64_neg :: "float64 \<Rightarrow> float64" where
  "f64_neg (F64Fin s m e) = F64Fin (\<not> s) m e"
| "f64_neg (F64Inf s) = F64Inf (\<not> s)"
| "f64_neg F64NaN = F64NaN"

fun f64_add :: "float64 \<Rightarrow> float64 \<Rightarrow> float64" where
  "f64_add F64NaN y = F64NaN"
| "f64_add x F64NaN = F64NaN"
| "f64_add (F64Inf s) (F64Inf t) = (if s = t then F64Inf s else F64NaN)"
| "f64_add (F64Inf s) (F64Fin t n k) = F64Inf s"
| "f64_add (F64Fin s m e) (F64Inf t) = F64Inf t"
| "f64_add (F64Fin s m e) (F64Fin t n k) =
     (if valof (F64Fin s m e) + valof (F64Fin t n k) = 0
      then F64Fin (s \<and> t) 0 (- 1074)
      else round64 (valof (F64Fin s m e) + valof (F64Fin t n k)))"

definition f64_sub :: "float64 \<Rightarrow> float64 \<Rightarrow> float64" where
  "f64_sub x y = f64_add x (f64_neg y)"

fun f64_mul :: "float64 \<Rightarrow> float64 \<Rightarrow> float64" where
  "f64_mul F64NaN y = F64NaN"
| "f64_mul x F64NaN = F64NaN"
| "f64_mul (F64Inf s) (F64Inf t) = F64Inf (s \<noteq> t)"
| "f64_mul (F64Inf s) (F64Fin t n k) = (if n = 0 then F64NaN else F64Inf (s \<noteq> t))"
| "f64_mul (F64Fin s m e) (F64Inf t) = (if m = 0 then F64NaN else F64Inf (s \<noteq> t))"
| "f64_mul (F64Fin s m e) (F64Fin t n k) =
     (if m = 0 then F64Fin (s \<noteq> t) 0 (- 1074)
      else if n = 0 then F64Fin (s \<noteq> t) 0 (- 1074)
      else round64 (valof (F64Fin s m e) * valof (F64Fin t n k)))"

fun f64_div :: "float64 \<Rightarrow> float64 \<Rightarrow> float64" where
  "f64_div F64NaN y = F64NaN"
| "f64_div x F64NaN = F64NaN"
| "f64_div (F64Inf s) (F64Inf t) = F64NaN"
| "f64_div (F64Inf s) (F64Fin t n k) = F64Inf (s \<noteq> t)"
| "f64_div (F64Fin s m e) (F64Inf t) = F64Fin (s \<noteq> t) 0 (- 1074)"
| "f64_div (F64Fin s m e) (F64Fin t n k) =
     (if n = 0 then (if m = 0 then F64NaN else F64Inf (s \<noteq> t))
      else if m = 0 then F64Fin (s \<noteq> t) 0 (- 1074)
      else round64 (valof (F64Fin s m e) / valof (F64Fin t n k)))"

text \<open>The comparisons \<open>== < <=\<close>: false on a NaN, and the two zeros are equal.\<close>

fun f64_eq :: "float64 \<Rightarrow> float64 \<Rightarrow> bool" where
  "f64_eq F64NaN y = False"
| "f64_eq x F64NaN = False"
| "f64_eq (F64Inf s) (F64Inf t) = (s = t)"
| "f64_eq (F64Inf s) (F64Fin t n k) = False"
| "f64_eq (F64Fin s m e) (F64Inf t) = False"
| "f64_eq (F64Fin s m e) (F64Fin t n k) = (valof (F64Fin s m e) = valof (F64Fin t n k))"

fun f64_lt :: "float64 \<Rightarrow> float64 \<Rightarrow> bool" where
  "f64_lt F64NaN y = False"
| "f64_lt x F64NaN = False"
| "f64_lt (F64Inf s) (F64Inf t) = (if s then \<not> t else False)"
| "f64_lt (F64Inf s) (F64Fin t n k) = s"
| "f64_lt (F64Fin s m e) (F64Inf t) = (\<not> t)"
| "f64_lt (F64Fin s m e) (F64Fin t n k) = (valof (F64Fin s m e) < valof (F64Fin t n k))"

fun f64_le :: "float64 \<Rightarrow> float64 \<Rightarrow> bool" where
  "f64_le F64NaN y = False"
| "f64_le x F64NaN = False"
| "f64_le (F64Inf s) (F64Inf t) = (if s then True else \<not> t)"
| "f64_le (F64Inf s) (F64Fin t n k) = s"
| "f64_le (F64Fin s m e) (F64Inf t) = (\<not> t)"
| "f64_le (F64Fin s m e) (F64Fin t n k) = (valof (F64Fin s m e) \<le> valof (F64Fin t n k))"

text \<open>A library record with the \<open>float64\<close> operations of Go; its other functions are those
  of the record given.\<close>

definition ieee :: "float64 golib \<Rightarrow> float64 golib" where
  "ieee lib =
     lib \<lparr> f_of_int := f64_of_int, f_add := f64_add, f_sub := f64_sub, f_mul := f64_mul,
           f_div := f64_div, f_eq := f64_eq, f_lt := f64_lt, f_le := f64_le \<rparr>"

text \<open>An instance on which the model can be run with Go's \<open>float64\<close>: the rest of the
  library is as in \<open>exlib\<close>.\<close>

definition exlib64 :: "float64 golib" where
  "exlib64 =
     ieee \<lparr> f_of_int = f64_of_int, f_add = f64_add, f_sub = f64_sub, f_mul = f64_mul,
            f_div = f64_div, f_eq = f64_eq, f_lt = f64_lt, f_le = f64_le,
            ParseFloat = (\<lambda>s. if s = [] then None
                               else map_option (\<lambda>n. f64_of_int (int n)) (scanDigits s 0)),
            Sscan = (\<lambda>s. if s = [] then None
                          else map_option (\<lambda>n. f64_of_int (int n)) (scanDigits s 0)),
            Sprint = (\<lambda>v. case v of VStr s \<Rightarrow> s | other \<Rightarrow> ''?''),
            DeepEqual = (=),
            unicode_TrimSpace = id, unicode_ToLower = id,
            bsonRoundTrip = Some \<rparr>"

section \<open>Properties of the condition evaluator\<close>

lemma Split_not_Nil: "Split s sep \<noteq> []"
  by (induction s) auto

lemma Split_no_separator: "sep \<notin> set s \<Longrightarrow> Split s sep = [s]"
  by (induction s) auto

lemma evaluateConditions_list_all:
  "evaluateConditions lib cs d = list_all (\<lambda>c. evaluateCondition lib c d) cs"
  by (induction cs) auto

text \<open>
  Claim C9. For every condition list and every data map, \<open>evaluateConditions\<close> is true
  exactly when \<open>evaluateCondition\<close> is true of every condition of the list, and it is true
  of the empty list.
\<close>

theorem evaluateConditions_conjunction:
  "evaluateConditions lib [] d \<and>
   (evaluateConditions lib cs d \<longleftrightarrow> (\<forall>c \<in> set cs. evaluateCondition lib c d))"
  by (simp add: evaluateConditions_list_all list_all_iff)

theorem evaluateConditions_conjunction_witness:
  "evaluateConditions exlib
     [\<lparr>c_Field = ''role'', c_Operator = ''eq'', c_Value = VStr ''admin'',
        c_Action = [], c_ReturnData = VNil\<rparr>,
      \<lparr>c_Field = ''age'', c_Operator = ''gte'', c_Value = VInt KInt 18,
        c_Action = [], c_ReturnData = VNil\<rparr>]
     [(''role'', VStr ''admin''), (''age'', VF64 30)] \<and>
   evaluateCondition exlib
     \<lparr>c_Field = ''role'', c_Operator = ''eq'', c_Value = VStr ''admin'',
       c_Action = [], c_ReturnData = VNil\<rparr>
     [(''role'', VStr ''admin''), (''age'', VF64 30)] \<and>
   evaluateCondition exlib
     \<lparr>c_Field = ''age'', c_Operator = ''gte'', c_Value = VInt KInt 18,
       c_Action = [], c_ReturnData = VNil\<rparr>
     [(''role'', VStr ''admin''), (''age'', VF64 30)]"
  using evaluateConditions_conjunction
    [where lib = exlib and d = "[(''role'', VStr ''admin''), (''age'', VF64 30)]"
      and cs = "[\<lparr>c_Field = ''role'', c_Operator = ''eq'', c_Value = VStr ''admin'',
          c_Action = [], c_ReturnData = VNil\<rparr>,
        \<lparr>c_Field = ''age'', c_Operator = ''gte'', c_Value = VInt KInt 18,
          c_Action = [], c_ReturnData = VNil\<rparr>]"]
  by (simp add: evaluateCondition_def compareOp_def exlib_def)

text \<open>When the field is not a key of the data map, the result is decided by the walk over
  the parts of the field and by the operator; for a field without a dot the walk always
  runs to its end.\<close>

lemma evaluateCondition_absent:
  "map_of d (c_Field c) = None \<Longrightarrow>
   evaluateCondition lib c d =
     (walkField (Split (c_Field c) CHR ''.'') (VMap d) \<and> c_Operator c = ''neq'')"
  by (simp add: evaluateCondition_def)

lemma evaluateCondition_absent_no_dot:
  "map_of d (c_Field c) = None \<Longrightarrow> CHR ''.'' \<notin> set (c_Field c) \<Longrightarrow>
   evaluateCondition lib c d = (c_Operator c = ''neq'')"
  by (simp add: evaluateCondition_def Split_no_separator)

text \<open>
  Claim C2. A condition on the dotted field \<open>a.b\<close> is to be compared with the value that the
  walk through the nested maps reaches. On the data map \<open>{a: {b: "x"}}\<close> the path \<open>a.b\<close>
  leads to \<open>"x"\<close>, which the operator \<open>eq\<close> accepts against \<open>"x"\<close>; \<open>evaluateCondition\<close>
  returns false, because after the walk it reads the field as the top-level key \<open>"a.b"\<close>,
  which the map does not have.
\<close>

theorem evaluateCondition_dotted_field_reads_top_level_key:
  "lookupPath (Split ''a.b'' CHR ''.'') (VMap [(''a'', VMap [(''b'', VStr ''x'')])])
     = Some (VStr ''x'') \<and>
   compareOp exlib ''eq'' (VStr ''x'') (VStr ''x'') \<and>
   \<not> evaluateCondition exlib
       \<lparr>c_Field = ''a.b'', c_Operator = ''eq'', c_Value = VStr ''x'',
         c_Action = [], c_ReturnData = VNil\<rparr>
       [(''a'', VMap [(''b'', VStr ''x'')])]"
  by (simp add: evaluateCondition_def compareOp_def exlib_def)

text \<open>
  Claim C3. For a field that the data map does not have, \<open>neq\<close> is to be true and every other
  operator false, dotted paths included. On the empty data map the dotted field \<open>a.b\<close> is
  absent, as a key and as a path, and \<open>evaluateCondition\<close> returns false for \<open>neq\<close>: the
  walk over the parts of the field reads the missing \<open>a\<close> as \<open>nil\<close> and returns false at the
  part \<open>b\<close>, before the operator is looked at.
\<close>

theorem evaluateCondition_dotted_absent_field_neq_false:
  "map_of ([] :: rat data) ''a.b'' = None \<and>
   lookupPath (Split ''a.b'' CHR ''.'') (VMap ([] :: rat data)) = None \<and>
   \<not> evaluateCondition exlib
       \<lparr>c_Field = ''a.b'', c_Operator = ''neq'', c_Value = VStr ''x'',
         c_Action = [], c_ReturnData = VNil\<rparr> []"
  by (simp add: evaluateCondition_def)

section \<open>Properties of the transformation engine\<close>

lemma ApplyTransformations_foldl:
  "ApplyTransformations lib ts d = foldl (\<lambda>result t. applyTransformation lib t result) d ts"
  by (cases ts) (simp_all add: ApplyTransformations_def)

text \<open>The last transformation of a list is applied to the map that the earlier ones have
  produced.\<close>

lemma ApplyTransformations_snoc:
  "ApplyTransformations lib (ts @ [t]) d =
     applyTransformation lib t (ApplyTransformations lib ts d)"
  by (simp add: ApplyTransformations_foldl)

lemma foldl_update_length:
  "length (foldl (\<lambda>s x. s[r := f x (s ! r)]) h xs) = length h"
  by (induction xs arbitrary: h) auto

lemma foldl_update_take:
  "n \<le> r \<Longrightarrow> take n (foldl (\<lambda>s x. s[r := f x (s ! r)]) h xs) = take n h"
  by (induction xs arbitrary: h) auto

lemma foldl_update_nth:
  "r < length h \<Longrightarrow>
   foldl (\<lambda>s x. s[r := f x (s ! r)]) h xs ! r = foldl (\<lambda>m x. f x m) (h ! r) xs"
  by (induction xs arbitrary: h) auto

lemma update_absent_key: "k \<notin> fst ` set al \<Longrightarrow> AList.update k v al = al @ [(k, v)]"
  by (induction al) auto

text \<open>The copy loop \<open>for k, v := range data { result[k] = v }\<close> rebuilds a map with distinct
  keys entry by entry.\<close>

lemma copy_loop:
  "distinct (map fst (acc @ m)) \<Longrightarrow>
   foldl (\<lambda>a kv. AList.update (fst kv) (snd kv) a) acc m = acc @ m"
proof (induction m arbitrary: acc)
  case Nil
  then show ?case by simp
next
  case (Cons kv m)
  have "AList.update (fst kv) (snd kv) acc = acc @ [kv]"
    using Cons.prems by (simp add: update_absent_key)
  moreover have "distinct (map fst ((acc @ [kv]) @ m))"
    using Cons.prems by simp
  ultimately show ?case
    using Cons.IH[of "acc @ [kv]"] by simp
qed

text \<open>The map object that \<open>ApplyTransformations_ref\<close> returns holds the map value that
  \<open>ApplyTransformations\<close> computes.\<close>

lemma ApplyTransformations_ref_value:
  assumes "data < length h" and "distinct (map fst (h ! data))"
  shows "snd (ApplyTransformations_ref lib ts data h)
           ! fst (ApplyTransformations_ref lib ts data h)
         = ApplyTransformations lib ts (h ! data)"
proof (cases "ts = []")
  case True
  then show ?thesis
    by (simp add: ApplyTransformations_ref_def ApplyTransformations_def)
next
  case False
  let ?copy = "\<lambda>kv. AList.update (fst kv) (snd kv)"
  let ?h2 = "foldl (\<lambda>s kv. s[length h := ?copy kv (s ! length h)])
               (h @ [[]]) ((h @ [[]]) ! data)"
  have len2: "length ?h2 = Suc (length h)"
    by (simp add: foldl_update_length[where f = ?copy])
  have "?h2 ! length h = foldl (\<lambda>m kv. ?copy kv m) [] (h ! data)"
    using assms(1) by (simp add: foldl_update_nth[where f = ?copy] nth_append)
  also have "\<dots> = h ! data"
    using copy_loop[of "[]" "h ! data"] assms(2) by simp
  finally have copy: "?h2 ! length h = h ! data" .
  have "foldl (\<lambda>s t. s[length h := applyTransformation lib t (s ! length h)]) ?h2 ts
          ! length h
        = foldl (\<lambda>m t. applyTransformation lib t m) (?h2 ! length h) ts"
    using len2 by (simp add: foldl_update_nth[where f = "applyTransformation lib"])
  then show ?thesis
    using False copy
    by (simp add: ApplyTransformations_ref_def Let_def ApplyTransformations_foldl)
qed

text \<open>
  Claim C4, as stated: for every transformation list, the empty one included,
  \<open>ApplyTransformations\<close> returns a freshly allocated map distinct from its argument. With
  the empty list the function returns the reference it was given.
\<close>

theorem ApplyTransformations_ref_empty_counterexample:
  "fst (ApplyTransformations_ref exlib [] 0 [[(''x'', VStr ''1'')]]) = 0"
  by (simp add: ApplyTransformations_ref_def)

text \<open>
  Claim C4, amended. For every non-empty transformation list, \<open>ApplyTransformations\<close>
  returns a map object that did not exist before the call, so one distinct from its
  argument; for the empty list it returns its argument and allocates nothing. In both
  cases every map object that existed before the call, the argument among them, is the
  same after the call.
\<close>

theorem ApplyTransformations_ref_fresh:
  assumes "data < length h"
  shows "(case ApplyTransformations_ref lib ts data h of
            (result, h') \<Rightarrow>
              (if ts = [] then result = data \<and> h' = h
               else result \<noteq> data \<and> \<not> result < length h \<and> result < length h') \<and>
              take (length h) h' = h)"
proof -
  let ?copy = "\<lambda>kv. AList.update (fst kv) (snd kv)"
  let ?h2 = "foldl (\<lambda>s kv. s[length h := ?copy kv (s ! length h)])
               (h @ [[]]) ((h @ [[]]) ! data)"
  have len2: "length ?h2 = Suc (length h)"
    by (simp add: foldl_update_length[where f = ?copy])
  have take2: "take (length h) ?h2 = h"
    by (simp add: foldl_update_take[where f = ?copy])
  show ?thesis
    using assms len2 take2
    by (simp add: ApplyTransformations_ref_def Let_def foldl_update_length foldl_update_take)
qed

theorem ApplyTransformations_ref_fresh_witness:
  "(0::nat) < length [[(''x'', VStr ''1'') :: string \<times> rat val]] \<and>
   ApplyTransformations_ref exlib
     [\<lparr>t_Operation = ''set'', t_Field = ''y'', t_Value = VStr ''$x'', t_Formula = []\<rparr>]
     0 [[(''x'', VStr ''1'')]]
   = (Suc 0, [[(''x'', VStr ''1'')], [(''x'', VStr ''1''), (''y'', VStr ''1'')]])"
  using ApplyTransformations_ref_fresh
    [where data = 0 and h = "[[(''x'', VStr ''1'')]]" and lib = exlib
      and ts = "[\<lparr>t_Operation = ''set'', t_Field = ''y'', t_Value = VStr ''$x'', t_Formula = []\<rparr>]"]
  by (simp add: ApplyTransformations_ref_def applyTransformation_def HasPrefix_def
      TrimPrefix_def)

text \<open>
  Claim C5, as stated: a \<open>set\<close> whose value is a \<open>$path\<close> that resolves to null leaves the
  target field absent from the resulting map, also when the input map had the field. On
  the map \<open>{x: "old"}\<close> the path \<open>$missing\<close> resolves to null and the field \<open>x\<close> is still
  there, with its old value.
\<close>

theorem set_null_path_counterexample:
  "SubstituteVariables (VStr ''$missing'') [(''x'', VStr ''old'') :: string \<times> rat val] = VNil \<and>
   map_of (ApplyTransformations exlib
             [\<lparr>t_Operation = ''set'', t_Field = ''x'', t_Value = VStr ''$missing'',
                t_Formula = []\<rparr>]
             [(''x'', VStr ''old'')]) ''x''
     = Some (VStr ''old'')"
  by (simp add: ApplyTransformations_def applyTransformation_def HasPrefix_def TrimPrefix_def)

text \<open>
  Claim C5, amended. For every data map and every \<open>set\<close> transformation whose value is a
  \<open>$path\<close> string: when the path resolves to null against the current map, the
  transformation leaves the map as it is (the target field stays absent if it was absent
  and keeps its value if it was present); when the path resolves to a non-null value, the
  field is written with that value and no other field changes. The current map is the
  one the earlier transformations of the list have produced.
\<close>

theorem set_path_null_or_written:
  assumes "t_Operation t = ''set''" and "t_Value t = VStr s" and "HasPrefix s ''$''"
  shows "(SubstituteVariables (VStr s) (ApplyTransformations lib ts d) = VNil \<longrightarrow>
            ApplyTransformations lib (ts @ [t]) d = ApplyTransformations lib ts d) \<and>
         (SubstituteVariables (VStr s) (ApplyTransformations lib ts d) \<noteq> VNil \<longrightarrow>
            ApplyTransformations lib (ts @ [t]) d =
              AList.update (t_Field t)
                (SubstituteVariables (VStr s) (ApplyTransformations lib ts d))
                (ApplyTransformations lib ts d))"
  using assms by (simp add: ApplyTransformations_snoc applyTransformation_def Let_def)

theorem set_path_null_or_written_witness:
  "HasPrefix ''$src'' ''$'' \<and>
   SubstituteVariables (VStr ''$src'')
     (ApplyTransformations exlib [] [(''x'', VStr ''old''), (''src'', VStr ''new'')]) \<noteq> VNil \<and>
   ApplyTransformations exlib
     ([] @ [\<lparr>t_Operation = ''set'', t_Field = ''x'', t_Value = VStr ''$src'', t_Formula = []\<rparr>])
     [(''x'', VStr ''old''), (''src'', VStr ''new'')]
   = [(''x'', VStr ''new''), (''src'', VStr ''new'')]"
  using set_path_null_or_written
    [where t = "\<lparr>t_Operation = ''set'', t_Field = ''x'', t_Value = VStr ''$src'',
                  t_Formula = []\<rparr>"
      and s = "''$src''" and lib = exlib and ts = "[]"
      and d = "[(''x'', VStr ''old''), (''src'', VStr ''new'')]"]
  by (simp add: ApplyTransformations_def HasPrefix_def TrimPrefix_def)






section \<open>Properties of the flow interpreter\<close>

text \<open>On a non-empty list the \<open>return\<close> action answers with the substituted fold of the
  pairs whose field names are exactly \<open>Key\<close> and \<open>Value\<close>.\<close>

lemma returnPairs_nonempty:
  "v \<noteq> [] \<Longrightarrow>
   returnPairs v d m fin =
     SubstituteVariables (VMap (foldl (\<lambda>m item. addPair item m) m v)) d"
proof (induction v arbitrary: m fin)
  case Nil
  then show ?case by simp
next
  case (Cons item v)
  then show ?case by (cases v) simp_all
qed

text \<open>
  Claim C6. A \<open>return\<close> action whose \<open>returnData\<close> is a list of pairs is to answer with the
  substituted map folded from the whole list, the field names \<open>Key\<close> and \<open>Value\<close> matched
  in either case, and with the empty map for the empty list. \<open>processAction\<close> answers
  \<open>nil\<close> for the empty list, since the substitution that sets the response is inside the
  loop over the items; it drops a pair written with \<open>key\<close> and \<open>value\<close>, since it reads the
  names \<open>Key\<close> and \<open>Value\<close> only; a pair written with \<open>Key\<close> and \<open>Value\<close> is folded and
  substituted.
\<close>

theorem return_pairs_empty_list_and_lower_case:
  "processAction exlib exStore (Suc 0)
     (Some (ActionDefinition ''return'' (VList []) None False [] None))
     [(''x'', VStr ''1'')]
   = Some (VNil, [(''x'', VStr ''1'')], False, None) \<and>
   processAction exlib exStore (Suc 0)
     (Some (ActionDefinition ''return''
              (VList [VMap [(''key'', VStr ''a''), (''value'', VStr ''$x'')]])
              None False [] None))
     [(''x'', VStr ''1'')]
   = Some (VMap [], [(''x'', VStr ''1'')], False, None) \<and>
   processAction exlib exStore (Suc 0)
     (Some (ActionDefinition ''return''
              (VList [VMap [(''Key'', VStr ''a''), (''Value'', VStr ''$x'')]])
              None False [] None))
     [(''x'', VStr ''1'')]
   = Some (VMap [(''a'', VStr ''1'')], [(''x'', VStr ''1'')], False, None)"
  by (simp add: ApplyTransformations_def addPair_def HasPrefix_def TrimPrefix_def)

text \<open>A \<open>nil\<close> among the call parameters is a \<open>nil\<close> written in the definition: a \<open>$path\<close>
  never puts one there.\<close>

lemma callParameters_nil:
  "map_of (callParameters ps d acc) k = Some VNil \<Longrightarrow>
   map_of acc k = Some VNil \<or> (k, VNil) \<in> set ps"
proof (induction ps arbitrary: acc)
  case Nil
  then show ?case by simp
next
  case (Cons kv ps)
  from Cons.IH[OF Cons.prems[simplified]] show ?case
    by (cases kv) (auto simp: update_conv' split: val.splits option.splits if_splits)
qed

text \<open>
  Claim C1. An \<open>apiCall\<close> parameter whose \<open>$path\<close> resolves to null is to make
  \<open>processAction\<close> answer with the \<open>missing required parameter\<close> response, without
  entering the flow of the target. With the parameter \<open>uid: "$uid"\<close> and an empty data map
  the path resolves to null; \<open>processAction\<close> leaves the parameter out of the call
  parameters, enters the flow of the target \<open>B\<close> and stores its answer under the result
  field.
\<close>

theorem apiCall_null_parameter_enters_target:
  "SubstituteVariables (VStr ''$uid'') ([] :: rat data) = VNil \<and>
   callParameters [(''uid'', VStr ''$uid'')] ([] :: rat data) [] = [] \<and>
   processAction exlib exStore (Suc (Suc (Suc 0)))
     (Some (ActionDefinition ''apiCall'' VNil None False []
        (Some \<lparr>ac_ApiName = ''B'', ac_Parameters = [(''uid'', VStr ''$uid'')],
                ac_ResultField = ''out''\<rparr>))) []
   = Some (VMap [(''out'', VMap [(''called'', VBool True), (''id'', VNil)])],
           [(''out'', VMap [(''called'', VBool True), (''id'', VNil)])], False, None)"
  by (simp add: ApplyTransformations_def HasPrefix_def TrimPrefix_def exStore_def
      exTarget_def storeResult_def Let_def)

lemma storeResult_no_error:
  "snd (snd (snd (storeResult lib action apiCall d r))) = None"
  by (simp add: storeResult_def Let_def split: val.splits)

lemma storeResult_not_error:
  "storeResult lib action apiCall d r = (x, y, z, Some e) \<Longrightarrow> False"
  using storeResult_no_error[of lib action apiCall d r] by simp

lemma flow_error_no_save:
  "(ProcessConditionalFlow lib store n flow d = Some (resp, fd, sv, Some e) \<longrightarrow> \<not> sv) \<and>
   (processAction lib store n action d = Some (resp, fd, sv, Some e) \<longrightarrow> \<not> sv)"
proof (induction n arbitrary: flow action d resp fd sv e)
  case 0
  show ?case by simp
next
  case (Suc n)
  have ih: "\<And>flow d resp fd sv e.
      ProcessConditionalFlow lib store n flow d = Some (resp, fd, sv, Some e) \<Longrightarrow> \<not> sv"
    using Suc.IH by blast
  have pcf: "ProcessConditionalFlow lib store (Suc n) flow d = Some (resp, fd, sv, Some e)
               \<longrightarrow> \<not> sv"
  proof (cases flow)
    case None
    then show ?thesis by simp
  next
    case (Some b)
    then show ?thesis
      by (auto split: option.splits if_splits)
  qed
  have pa: "processAction lib store (Suc n) action d = Some (resp, fd, sv, Some e)
              \<longrightarrow> \<not> sv"
  proof (cases action)
    case None
    then show ?thesis by simp
  next
    case (Some a)
    show ?thesis
    proof
      assume run: "processAction lib store (Suc n) action d = Some (resp, fd, sv, Some e)"
      show "\<not> sv"
      proof (cases "a_Type a = ''conditionalBlock''")
        case True
        with run Some show ?thesis
          by (auto simp: Let_def dest: ih split: option.splits if_splits)
      next
        case False
        with run Some show ?thesis
          by (auto simp: Let_def dest: storeResult_not_error
              split: option.splits if_splits sum.splits)
      qed
    qed
  qed
  from pcf pa show ?case by simp
qed

section \<open>Properties of the dispatcher\<close>

lemma missingRequired_finds:
  assumes "param \<in> set ps" and "p_Required param"
    and "case map_of reqData (p_Name param) of
           None \<Rightarrow> True | Some v \<Rightarrow> v = VNil \<or> Sprint lib v = []"
  shows "\<exists>name. missingRequired lib ps reqData = Some name"
  using assms
proof (induction ps)
  case Nil
  then show ?case by simp
next
  case (Cons p ps)
  show ?case
  proof (cases "p = param")
    case True
    with Cons.prems show ?thesis
      by (auto split: option.splits val.splits)
  next
    case False
    with Cons have "\<exists>name. missingRequired lib ps reqData = Some name" by simp
    then show ?thesis
      by (auto split: option.splits val.splits)
  qed
qed

text \<open>
  Claim C8. For every request that matches a definition: if a parameter declared required
  is absent from the request data map, or its value is null, or its value prints as the
  empty string, the handler answers with status 400 and a body with an \<open>error\<close> field, and
  it has called neither the flow interpreter, nor the default logic, nor the store.
\<close>

theorem required_parameter_missing_400:
  assumes "dynamicRoutes (r_Method req @ '':'' @ r_Path req) = Some api"
    and "param \<in> set (d_Parameters api)" and "p_Required param"
    and "case map_of (requestData req) (p_Name param) of
           None \<Rightarrow> True | Some v \<Rightarrow> v = VNil \<or> Sprint lib v = []"
  shows "\<exists>name. DynamicAPIHandler lib store fuel dynamicRoutes req =
           Some (Respond 400
                   (VFiberMap [(''error'',
                      VStr (''Missing or empty required parameter: '' @ name))]), [])"
proof -
  obtain name where "missingRequired lib (d_Parameters api) (requestData req) = Some name"
    using missingRequired_finds[OF assms(2,3,4)] by blast
  then show ?thesis
    using assms(1) by (simp add: DynamicAPIHandler_def)
qed

theorem required_parameter_missing_400_witness:
  "exRoutes (''POST'' @ '':'' @ ''/u'') = Some exUsers \<and>
   \<lparr>p_Name = ''id'', p_Type = ''string'', p_Required = True\<rparr> \<in> set (d_Parameters exUsers) \<and>
   map_of (requestData
             \<lparr>r_Method = ''POST'', r_Path = ''/u'', r_AllParams = [],
               r_QueryArgs = [(''q'', ''1'')],
               r_Body = Some [(''id'', VStr []), (''name'', VStr ''Ada'') :: string \<times> rat val]\<rparr>)
     ''id'' = Some (VStr []) \<and>
   Sprint exlib (VStr []) = [] \<and>
   DynamicAPIHandler exlib exStore (Suc (Suc 0)) exRoutes
     \<lparr>r_Method = ''POST'', r_Path = ''/u'', r_AllParams = [],
       r_QueryArgs = [(''q'', ''1'')],
       r_Body = Some [(''id'', VStr []), (''name'', VStr ''Ada'')]\<rparr>
   = Some (Respond 400
             (VFiberMap [(''error'', VStr ''Missing or empty required parameter: id'')]), [])"
  using required_parameter_missing_400
    [where dynamicRoutes = exRoutes and api = exUsers and lib = exlib and store = exStore
      and fuel = "Suc (Suc 0)"
      and param = "\<lparr>p_Name = ''id'', p_Type = ''string'', p_Required = True\<rparr>"
      and req = "\<lparr>r_Method = ''POST'', r_Path = ''/u'', r_AllParams = [],
                   r_QueryArgs = [(''q'', ''1'')],
                   r_Body = Some [(''id'', VStr []), (''name'', VStr ''Ada'')]\<rparr>"]
  by (simp add: DynamicAPIHandler_def requestData_def putIfAbsent_def exlib_def exRoutes_def
      exUsers_def)

lemma saveStep_after_error:
  "processingError l \<noteq> None \<Longrightarrow>
   saveStep store api l = (Shape (status l) (response l) (processingError l), [])"
  by (cases "processingError l") (simp_all add: saveStep_def)

lemma handler_flow_error_no_save:
  assumes "dynamicRoutes (r_Method req @ '':'' @ r_Path req) = Some api"
    and "d_ConditionalFlow api = Some flow"
    and "ProcessConditionalFlow lib store fuel (Some flow) (requestData req)
           = Some (resp, fd, sv, Some e)"
    and "DynamicAPIHandler lib store fuel dynamicRoutes req = Some (out, calls)"
  shows "\<not> list_ex isSaveData calls"
  using assms
  by (auto simp: DynamicAPIHandler_def Let_def saveStep_after_error failWith_def
      split: option.splits if_splits)

text \<open>
  Claim C10. Whenever \<open>ProcessConditionalFlow\<close> or \<open>processAction\<close> returns an error, the
  save flag it returns is false; the saving step of the handler calls nothing once a
  processing error is recorded; and when the flow of the matched definition has returned
  an error, the handler does not call \<open>SaveData\<close>.
\<close>

theorem flow_error_never_saves:
  "(ProcessConditionalFlow lib store n flow d = Some (resp, fd, sv, Some e) \<longrightarrow> sv = False) \<and>
   (processAction lib store n action d' = Some (resp', fd', sv', Some e') \<longrightarrow> sv' = False) \<and>
   (processingError l \<noteq> None \<longrightarrow> snd (saveStep store api' l) = []) \<and>
   (dynamicRoutes (r_Method req @ '':'' @ r_Path req) = Some api \<and>
    d_ConditionalFlow api = Some rootFlow \<and>
    ProcessConditionalFlow lib store fuel (Some rootFlow) (requestData req)
      = Some (resp'', fd'', sv'', Some e'') \<and>
    DynamicAPIHandler lib store fuel dynamicRoutes req = Some (out, calls)
    \<longrightarrow> \<not> list_ex isSaveData calls)"
  using flow_error_no_save[of lib store n flow d resp fd sv e]
    flow_error_no_save[of lib store n flow d' resp' fd' sv' e' action]
    handler_flow_error_no_save[of dynamicRoutes req api rootFlow lib store fuel]
    saveStep_after_error[of l store api']
  by (simp (no_asm_simp)) blast

theorem flow_error_never_saves_witness:
  "ProcessConditionalFlow exlib exStore (Suc (Suc 0)) (Some exBrokenFlow) []
     = Some (VFiberMap [(''error'', VStr ''unknown action type: bogus'')], [], False,
             Some (Error ''unknown action type: bogus'')) \<and>
   processAction exlib exStore (Suc 0)
     (Some (ActionDefinition ''bogus'' VNil None True [] None)) []
     = Some (VFiberMap [(''error'', VStr ''unknown action type: bogus'')], [], False,
             Some (Error ''unknown action type: bogus'')) \<and>
   exRoutes (''GET'' @ '':'' @ ''/broken'') = Some exBroken \<and>
   d_ConditionalFlow exBroken = Some exBrokenFlow \<and>
   DynamicAPIHandler exlib exStore (Suc (Suc 0)) exRoutes
     \<lparr>r_Method = ''GET'', r_Path = ''/broken'', r_AllParams = [], r_QueryArgs = [],
       r_Body = None\<rparr>
   = Some (Shape 500
             (VFiberMap [(''error'',
                VStr ''failed to process request logic: unknown action type: bogus'')])
             (Some (Error ''failed to process request logic: unknown action type: bogus'')),
           [CallProcessConditionalFlow []])"
  using flow_error_never_saves
    [where lib = exlib and store = exStore and n = "Suc (Suc 0)"
      and flow = "Some exBrokenFlow" and d = "[]" and fuel = "Suc (Suc 0)"
      and dynamicRoutes = exRoutes and api = exBroken and rootFlow = exBrokenFlow
      and req = "\<lparr>r_Method = ''GET'', r_Path = ''/broken'', r_AllParams = [],
                   r_QueryArgs = [], r_Body = None\<rparr>"]
  by (simp add: DynamicAPIHandler_def requestData_def exRoutes_def exBroken_def
      exBrokenFlow_def ApplyTransformations_def failWith_def saveStep_def)

end
